theory Spec2Isabelle
  imports Complex_Main "HOL-Library.AList" "HOL-Library.Sublist"
begin

section \<open>The NLP analyzer: data model\<close>

text \<open>
  The development embeds \<^verbatim>\<open>src/services/nlp_analyzer.py\<close>, the orchestrator that
  classifies contract clauses and attaches embeddings to them.

  Numbers: the Python floats that the analyzer receives (confidence scores, the
  threshold, embedding components) are finite, and are the \<^typ>\<open>real\<close> numbers they denote.
  The comparisons \<^verbatim>\<open><\<close> and \<^verbatim>\<open><=\<close> of finite floats agree with the comparisons of these
  reals. The floats that \<^verbatim>\<open>get_analysis_summary\<close> computes (a sum, a quotient, a rounded
  value) are results of binary64 operations: each is the exact result rounded to the
  nearest double, or a value that is not finite.

  The clause's field \<^verbatim>\<open>text\<close> is written \<open>text'\<close>, and the method
  \<^verbatim>\<open>_create_fallback_analysis\<close> loses its leading underscore.
\<close>

record Clause =
  clause_id :: string
  text' :: string

type_synonym embedding = "real list"

type_synonym classification = "string \<times> real \<times> (string \<times> real) list"

record ClauseAnalysis =
  clause_id :: string
  clause_text :: string
  clause_type :: string
  confidence_score :: real
  embeddings :: "embedding option"
  alternative_types :: "(string \<times> real) list"

text \<open>
  Python exceptions. Everything the collaborators raise is an \<^verbatim>\<open>Exception\<close>; the
  analyzer itself raises \<^verbatim>\<open>InferenceError(message, details={'clause_id': ...})\<close> and
  \<^verbatim>\<open>ValueError(message)\<close>; a float division can raise \<^verbatim>\<open>ZeroDivisionError\<close>, and the
  conversion of an integer to a float \<^verbatim>\<open>OverflowError\<close>. \<open>str\<close> is Python's \<^verbatim>\<open>str(e)\<close>, the
  message. Exceptions outside
  \<^verbatim>\<open>Exception\<close> (a keyboard interrupt, an exit), which no handler of the module catches,
  are not modelled.
\<close>

datatype py_exception =
    Exception string
  | InferenceError string "(string \<times> string) list"
  | ValueError string
  | ZeroDivisionError string
  | OverflowError string

fun str :: "py_exception \<Rightarrow> string" where
  "str (Exception m) = m"
| "str (InferenceError m d) = m"
| "str (ValueError m) = m"
| "str (ZeroDivisionError m) = m"
| "str (OverflowError m) = m"

fun is_InferenceError :: "py_exception \<Rightarrow> bool" where
  "is_InferenceError (InferenceError m d) = True"
| "is_InferenceError e = False"

text \<open>
  Modelled from the spec: the class \<^verbatim>\<open>ClauseAnalysis\<close> of \<^verbatim>\<open>models/clause_analysis.py\<close> is
  missing from the sources. The specification describes it as a plain record whose
  fields are "not enforced at construction", so its constructor stores the six
  arguments and never raises. The result type keeps the possibility of an exception, so
  that the handlers around every construction stay branches of the model.
\<close>

definition ClauseAnalysis_init ::
  "string \<Rightarrow> string \<Rightarrow> string \<Rightarrow> real \<Rightarrow> embedding option \<Rightarrow> (string \<times> real) list
     \<Rightarrow> py_exception + ClauseAnalysis" where
  "ClauseAnalysis_init cid ctext ctype conf emb alts =
     Inr \<lparr>clause_id = cid, clause_text = ctext, clause_type = ctype,
          confidence_score = conf, embeddings = emb, alternative_types = alts\<rparr>"

section \<open>Collaborators, the outside world and the log\<close>

text \<open>
  The classifier and the embedding generator are black boxes. Each call may raise or
  return, and may change the state \<open>'s\<close> of the outside (model weights, caches, a
  failing device), so a later call on the same text may behave differently.
\<close>

record 's LegalBERTClassifier =
  predict :: "string \<Rightarrow> 's \<Rightarrow> (py_exception + classification) \<times> 's"

record 's EmbeddingGenerator =
  generate_embedding :: "string \<Rightarrow> 's \<Rightarrow> (py_exception + embedding) \<times> 's"
  generate_embeddings_batch ::
    "string list \<Rightarrow> bool \<Rightarrow> int \<Rightarrow> 's \<Rightarrow> (py_exception + embedding option list) \<times> 's"

record 's NLPAnalyzer =
  classifier :: "'s LegalBERTClassifier"
  embedding_generator :: "'s EmbeddingGenerator"
  confidence_threshold :: real

datatype call =
    Predict string
  | GenerateEmbedding string
  | GenerateEmbeddingsBatch "string list" bool int

datatype level = DEBUG | INFO | WARNING | ERROR

datatype fmt_arg = Str string | Nat nat | Real real | Counts "(string \<times> nat) list"

text \<open>
  A log record is the level, the message with \<^verbatim>\<open>{}\<close> for each interpolated value, and the
  values. The world is the collaborators' state, the calls made to them so far and the
  records logged so far.
\<close>

type_synonym log_record = "level \<times> string \<times> fmt_arg list"

record 's world =
  ext :: 's
  calls :: "call list"
  logged :: "log_record list"

definition logger :: "level \<Rightarrow> string \<Rightarrow> fmt_arg list \<Rightarrow> 's world \<Rightarrow> 's world" where
  "logger lvl msg args w = w\<lparr>logged := logged w @ [(lvl, msg, args)]\<rparr>"

definition call_predict ::
  "'s NLPAnalyzer \<Rightarrow> string \<Rightarrow> 's world \<Rightarrow> (py_exception + classification) \<times> 's world" where
  "call_predict self t w =
     (case predict (classifier self) t (ext w) of
        (r, s) \<Rightarrow> (r, w\<lparr>ext := s, calls := calls w @ [Predict t]\<rparr>))"

definition call_generate_embedding ::
  "'s NLPAnalyzer \<Rightarrow> string \<Rightarrow> 's world \<Rightarrow> (py_exception + embedding) \<times> 's world" where
  "call_generate_embedding self t w =
     (case generate_embedding (embedding_generator self) t (ext w) of
        (r, s) \<Rightarrow> (r, w\<lparr>ext := s, calls := calls w @ [GenerateEmbedding t]\<rparr>))"

definition call_generate_embeddings_batch ::
  "'s NLPAnalyzer \<Rightarrow> string list \<Rightarrow> bool \<Rightarrow> int \<Rightarrow> 's world
     \<Rightarrow> (py_exception + embedding option list) \<times> 's world" where
  "call_generate_embeddings_batch self ts use_cache batch_size w =
     (case generate_embeddings_batch (embedding_generator self) ts use_cache batch_size (ext w) of
        (r, s) \<Rightarrow> (r, w\<lparr>ext := s, calls := calls w @ [GenerateEmbeddingsBatch ts use_cache batch_size]\<rparr>))"

section \<open>Fallback synthesis\<close>

definition create_fallback_analysis ::
  "'s NLPAnalyzer \<Rightarrow> Clause \<Rightarrow> string \<Rightarrow> 's world \<Rightarrow> (py_exception + ClauseAnalysis) \<times> 's world" where
  "create_fallback_analysis self clause error_msg w =
     (let w1 = logger WARNING ''Creating fallback analysis for clause {}: {}''
                 [Str (Clause.clause_id clause), Str error_msg] w
      in (ClauseAnalysis_init (Clause.clause_id clause) (text' clause) ''Other'' 0.0 None
            [(''Other'', 0.0)], w1))"

section \<open>Single-clause analysis\<close>

text \<open>
  The outer \<^verbatim>\<open>try\<close> of \<^verbatim>\<open>analyze_clause\<close> has two handlers: an \<^verbatim>\<open>InferenceError\<close> is raised
  again, any other exception is logged and replaced by the fallback record.
\<close>

definition analyze_clause_handler ::
  "'s NLPAnalyzer \<Rightarrow> Clause \<Rightarrow> py_exception \<Rightarrow> 's world \<Rightarrow> (py_exception + ClauseAnalysis) \<times> 's world" where
  "analyze_clause_handler self clause e w =
     (if is_InferenceError e then (Inl e, w)
      else create_fallback_analysis self clause (str e)
             (logger ERROR ''Unexpected error analyzing clause {}: {}''
                [Str (Clause.clause_id clause), Str (str e)] w))"

text \<open>
  The body of \<^verbatim>\<open>analyze_clause\<close>, lines 56 to 109, with the construction of the record at
  lines 87 to 94 as a parameter \<open>ctor\<close>, so that a fault of it (the specification's
  "defect constructing the result") can be followed into the outer handlers.
  \<^verbatim>\<open>analyze_clause\<close> itself is this body with the constructor of the class.
\<close>

type_synonym constructor =
  "string \<Rightarrow> string \<Rightarrow> string \<Rightarrow> real \<Rightarrow> embedding option \<Rightarrow> (string \<times> real) list
     \<Rightarrow> py_exception + ClauseAnalysis"

definition analyze_clause_with ::
  "constructor \<Rightarrow> 's NLPAnalyzer \<Rightarrow> Clause \<Rightarrow> 's world
     \<Rightarrow> (py_exception + ClauseAnalysis) \<times> 's world" where
  "analyze_clause_with ctor self clause w =
     (let w1 = logger DEBUG ''Analyzing clause: {}'' [Str (Clause.clause_id clause)] w in
      case call_predict self (text' clause) w1 of
        (Inl e, w2) \<Rightarrow>
          analyze_clause_handler self clause
            (InferenceError (''Failed to classify clause: '' @ str e)
               [(''clause_id'', Clause.clause_id clause)])
            (logger ERROR ''Classification failed for clause {}: {}''
               [Str (Clause.clause_id clause), Str (str e)] w2)
      | (Inr (ctype, confidence, alternatives), w2) \<Rightarrow>
          (let (embedding, w3) =
                 (case call_generate_embedding self (text' clause) w2 of
                    (Inr emb, w') \<Rightarrow> (Some emb, w')
                  | (Inl e, w') \<Rightarrow>
                      (None, logger ERROR ''Embedding generation failed for clause {}: {}''
                               [Str (Clause.clause_id clause), Str (str e)] w'));
               w4 = (if confidence < confidence_threshold self
                     then logger WARNING
                            ''Low confidence ({:.2f}) for clause {}. Classified as '{}'. Consider manual review.''
                            [Real confidence, Str (Clause.clause_id clause), Str ctype] w3
                     else w3)
           in case ctor (Clause.clause_id clause) (text' clause) ctype confidence
                     embedding alternatives of
                Inr analysis \<Rightarrow>
                  (Inr analysis,
                   logger INFO ''Clause {} analyzed: type='{}', confidence={:.2f}''
                     [Str (Clause.clause_id clause), Str ctype, Real confidence] w4)
              | Inl e \<Rightarrow> analyze_clause_handler self clause e w4))"

definition analyze_clause ::
  "'s NLPAnalyzer \<Rightarrow> Clause \<Rightarrow> 's world \<Rightarrow> (py_exception + ClauseAnalysis) \<times> 's world" where
  "analyze_clause self clause w = analyze_clause_with ClauseAnalysis_init self clause w"

section \<open>Batch analysis\<close>

text \<open>Step 1, lines 140 to 153: one \<^verbatim>\<open>predict\<close> per clause, a failure replaced and counted.\<close>

fun classify_loop ::
  "'s NLPAnalyzer \<Rightarrow> Clause list \<Rightarrow> classification list \<times> nat \<Rightarrow> 's world
     \<Rightarrow> (classification list \<times> nat) \<times> 's world" where
  "classify_loop self [] acc w = (acc, w)"
| "classify_loop self (clause # rest) (classifications, classification_errors) w =
     (case call_predict self (text' clause) w of
        (Inr (ctype, confidence, alternatives), w1) \<Rightarrow>
          classify_loop self rest
            (classifications @ [(ctype, confidence, alternatives)], classification_errors)
            (if confidence < confidence_threshold self
             then logger WARNING ''Low confidence ({:.2f}) for clause {}''
                    [Real confidence, Str (Clause.clause_id clause)] w1
             else w1)
      | (Inl e, w1) \<Rightarrow>
          classify_loop self rest
            (classifications @ [(''Other'', 0.5, [(''Other'', 0.5)])], classification_errors + 1)
            (logger ERROR ''Error classifying clause {}: {}''
               [Str (Clause.clause_id clause), Str (str e)] w1))"

text \<open>The second attempt of step 2, lines 174 to 182: one \<^verbatim>\<open>generate_embedding\<close> per clause.\<close>

fun embed_loop ::
  "'s NLPAnalyzer \<Rightarrow> Clause list \<Rightarrow> embedding option list \<times> nat \<Rightarrow> 's world
     \<Rightarrow> (embedding option list \<times> nat) \<times> 's world" where
  "embed_loop self [] acc w = (acc, w)"
| "embed_loop self (clause # rest) (embeddings', embedding_errors) w =
     (case call_generate_embedding self (text' clause) w of
        (Inr emb, w1) \<Rightarrow> embed_loop self rest (embeddings' @ [Some emb], embedding_errors) w1
      | (Inl emb_error, w1) \<Rightarrow>
          embed_loop self rest (embeddings' @ [None], embedding_errors + 1)
            (logger ERROR ''Error generating embedding for {}: {}''
               [Str (Clause.clause_id clause), Str (str emb_error)] w1))"

text \<open>
  Step 3, lines 193 to 208, over the \<^verbatim>\<open>zip\<close> of the three sequences. An exception of
  the fallback itself is not handled inside the loop and leaves it.
\<close>

fun combine_loop ::
  "'s NLPAnalyzer \<Rightarrow> (Clause \<times> classification \<times> embedding option) list \<Rightarrow> ClauseAnalysis list
     \<Rightarrow> 's world \<Rightarrow> (py_exception + ClauseAnalysis list) \<times> 's world" where
  "combine_loop self [] analyses w = (Inr analyses, w)"
| "combine_loop self ((clause, (ctype, confidence, alternatives), embedding) # rest) analyses w =
     (case ClauseAnalysis_init (Clause.clause_id clause) (text' clause) ctype confidence
             embedding alternatives of
        Inr analysis \<Rightarrow> combine_loop self rest (analyses @ [analysis]) w
      | Inl e \<Rightarrow>
          (case create_fallback_analysis self clause (str e)
                  (logger ERROR ''Error creating analysis for clause {}: {}''
                     [Str (Clause.clause_id clause), Str (str e)] w) of
             (Inr fb, w1) \<Rightarrow> combine_loop self rest (analyses @ [fb]) w1
           | (Inl e', w1) \<Rightarrow> (Inl e', w1)))"

text \<open>The list comprehension of the outer handler, line 236.\<close>

fun fallback_all ::
  "'s NLPAnalyzer \<Rightarrow> Clause list \<Rightarrow> string \<Rightarrow> 's world
     \<Rightarrow> (py_exception + ClauseAnalysis list) \<times> 's world" where
  "fallback_all self [] msg w = (Inr [], w)"
| "fallback_all self (clause # rest) msg w =
     (case create_fallback_analysis self clause msg w of
        (Inl e, w1) \<Rightarrow> (Inl e, w1)
      | (Inr fb, w1) \<Rightarrow>
          (case fallback_all self rest msg w1 of
             (Inl e, w2) \<Rightarrow> (Inl e, w2)
           | (Inr fbs, w2) \<Rightarrow> (Inr (fb # fbs), w2)))"

text \<open>Step 2, lines 163 to 182: the batched call, and the per-clause loop when it raises.\<close>

definition embed_step ::
  "'s NLPAnalyzer \<Rightarrow> Clause list \<Rightarrow> int \<Rightarrow> 's world \<Rightarrow> (embedding option list \<times> nat) \<times> 's world" where
  "embed_step self clauses batch_size w =
     (let clause_texts = map text' clauses in
      case call_generate_embeddings_batch self clause_texts True batch_size w of
        (Inr embeddings', w1) \<Rightarrow> ((embeddings', 0), w1)
      | (Inl e, w1) \<Rightarrow>
          embed_loop self clauses ([], 0)
            (logger INFO ''Falling back to individual embedding generation...'' []
               (logger ERROR ''Error in batch embedding generation: {}'' [Str (str e)] w1)))"

text \<open>The body of the \<^verbatim>\<open>try\<close> of \<^verbatim>\<open>analyze_clauses\<close>, lines 127 to 230.\<close>

definition analyze_clauses_try ::
  "'s NLPAnalyzer \<Rightarrow> Clause list \<Rightarrow> int \<Rightarrow> 's world
     \<Rightarrow> (py_exception + ClauseAnalysis list) \<times> 's world" where
  "analyze_clauses_try self clauses batch_size w =
     (let w1 = logger INFO ''Starting batch analysis of {} clauses'' [Nat (length clauses)] w in
      if clauses = [] then (Inr [], logger WARNING ''No clauses provided for analysis'' [] w1)
      else
        let ((classifications, classification_errors), w2) =
              classify_loop self clauses ([], 0)
                (logger INFO ''Step 1: Classifying clauses...'' [] w1);
            w3 = (if classification_errors > 0
                  then logger WARNING
                         (''{} clauses failed classification and were marked as 'Other'' @ [CHR 0x27])
                         [Nat classification_errors] w2
                  else w2);
            ((embeddings', embedding_errors), w4) =
              embed_step self clauses batch_size
                (logger INFO ''Step 2: Generating embeddings in batch...'' [] w3);
            w5 = (if embedding_errors > 0
                  then logger WARNING
                         ''{} clauses failed embedding generation. Compliance matching may be less accurate for these clauses.''
                         [Nat embedding_errors] w4
                  else w4)
        in case combine_loop self (zip clauses (zip classifications embeddings')) []
                  (logger INFO ''Step 3: Combining results...'' [] w5) of
             (Inl e, w6) \<Rightarrow> (Inl e, w6)
           | (Inr analyses, w6) \<Rightarrow>
               (let low_confidence_count =
                      sum_list (map (\<lambda>a. 1)
                        (filter (\<lambda>a. confidence_score a < confidence_threshold self) analyses));
                    w7 = logger INFO
                           ''Batch analysis complete: {} clauses analyzed, {} with low confidence, {} classification errors, {} embedding errors''
                           [Nat (length analyses), Nat low_confidence_count,
                            Nat classification_errors, Nat embedding_errors] w6;
                    total_errors = classification_errors + embedding_errors;
                    w8 = (if real total_errors > real (length clauses) * 0.5
                          then logger ERROR
                                 ''High error rate: {}/{} clauses had errors. Results may be unreliable.''
                                 [Nat total_errors, Nat (length clauses)] w7
                          else w7)
                in (Inr analyses, w8)))"

definition analyze_clauses ::
  "'s NLPAnalyzer \<Rightarrow> Clause list \<Rightarrow> int \<Rightarrow> 's world
     \<Rightarrow> (py_exception + ClauseAnalysis list) \<times> 's world" where
  "analyze_clauses self clauses batch_size w =
     (case analyze_clauses_try self clauses batch_size w of
        (Inr analyses, w1) \<Rightarrow> (Inr analyses, w1)
      | (Inl e, w1) \<Rightarrow>
          fallback_all self clauses (str e)
            (logger WARNING ''Returning fallback analyses for all clauses due to critical error'' []
               (logger ERROR ''Critical error in batch analysis: {}'' [Str (str e)] w1)))"

section \<open>Triage, configuration and summary\<close>

definition get_low_confidence_clauses ::
  "'s NLPAnalyzer \<Rightarrow> ClauseAnalysis list \<Rightarrow> 's world \<Rightarrow> ClauseAnalysis list \<times> 's world" where
  "get_low_confidence_clauses self analyses w =
     (let low_confidence = [a \<leftarrow> analyses. confidence_score a < confidence_threshold self]
      in (low_confidence,
          logger INFO ''Found {} clauses with confidence below {}''
            [Nat (length low_confidence), Real (confidence_threshold self)] w))"

text \<open>
  \<^verbatim>\<open>set_confidence_threshold\<close> mutates the analyzer: the model returns the analyzer after
  the call next to the outcome.
\<close>

definition set_confidence_threshold ::
  "'s NLPAnalyzer \<Rightarrow> real \<Rightarrow> 's world \<Rightarrow> (py_exception + unit) \<times> 's NLPAnalyzer \<times> 's world" where
  "set_confidence_threshold self threshold w =
     (if \<not> (0.0 \<le> threshold \<and> threshold \<le> 1.0)
      then (Inl (ValueError ''Confidence threshold must be between 0.0 and 1.0''), self, w)
      else (Inr (), self\<lparr>confidence_threshold := threshold\<rparr>,
            logger INFO ''Confidence threshold updated to {}'' [Real threshold] w))"

subsection \<open>Float arithmetic\<close>

text \<open>
  A computed float is \<open>Finite x\<close> for a double \<open>x\<close>, or \<open>Nonfinite\<close>, which stands for the
  two infinities and NaN (signed zeros are not told apart; they compare equal).

  \<open>float_round\<close> is the rounding of binary64 (IEEE 754, to nearest, a tie to the even
  significand): a real in the binade \<open>2 ^ k \<le> \<bar>x\<bar> < 2 ^ (k + 1)\<close> is rounded to a multiple
  of \<open>2 ^ (k - 52)\<close>, and of \<open>2 ^ - 1074\<close> in the subnormal range; a result of magnitude
  \<open>2 ^ 1024\<close> is an overflow.
\<close>

datatype pyfloat = Finite real | Nonfinite

definition round_half_even :: "real \<Rightarrow> int" where
  "round_half_even x =
     (let f = \<lfloor>x\<rfloor>; d = x - of_int f
      in if d < 1 / 2 then f else if 1 / 2 < d then f + 1 else if even f then f else f + 1)"

definition pow2 :: "int \<Rightarrow> real" where
  "pow2 e = (if 0 \<le> e then 2 ^ nat e else 1 / 2 ^ nat (- e))"

definition float_round :: "real \<Rightarrow> pyfloat" where
  "float_round x =
     (if x = 0 then Finite 0
      else
        let ulp = pow2 (max (\<lfloor>log 2 \<bar>x\<bar>\<rfloor> - 52) (- 1074));
            r = of_int (round_half_even (x / ulp)) * ulp
        in if 2 ^ 1024 \<le> \<bar>r\<bar> then Nonfinite else Finite r)"

text \<open>
  \<^verbatim>\<open>a + b\<close> on floats. An operand that is not finite gives a result that is not finite.
\<close>

fun py_float_add :: "pyfloat \<Rightarrow> pyfloat \<Rightarrow> pyfloat" where
  "py_float_add (Finite x) (Finite y) = float_round (x + y)"
| "py_float_add a b = Nonfinite"

text \<open>
  The builtin \<^verbatim>\<open>sum\<close> of an iterable of floats is a parameter \<open>py_sum\<close> of the summary, since
  its algorithm belongs to the interpreter: CPython up to 3.11 adds the items from left
  to right, starting from the integer 0 (\<open>sum_left_to_right\<close>); CPython from 3.12 on keeps
  a compensation term for the rounding errors when the items are exact floats.
\<close>

definition sum_left_to_right :: "real list \<Rightarrow> pyfloat" where
  "sum_left_to_right xs = foldl py_float_add (Finite 0) (map Finite xs)"

text \<open>
  \<^verbatim>\<open>a / n\<close> for a float and an integer: the integer is converted to a float first (rounded
  when it has more than 53 bits, \<^verbatim>\<open>OverflowError\<close> when it is beyond the doubles), and a zero
  divisor raises.
\<close>

definition py_truediv :: "pyfloat \<Rightarrow> nat \<Rightarrow> py_exception + pyfloat" where
  "py_truediv a n =
     (case float_round (real n) of
        Nonfinite \<Rightarrow> Inl (OverflowError ''int too large to convert to float'')
      | Finite d \<Rightarrow>
          if d = 0 then Inl (ZeroDivisionError ''float division by zero'')
          else (case a of
                  Finite x \<Rightarrow> Inr (float_round (x / d))
                | Nonfinite \<Rightarrow> Inr Nonfinite))"

text \<open>
  \<^verbatim>\<open>round(x, ndigits)\<close> for a float and \<open>ndigits \<ge> 0\<close>: the exact value of \<open>x\<close> is rounded to
  \<open>ndigits\<close> decimals, a tie to the even digit, and the decimal is converted to the nearest
  double; an infinity or a NaN is returned as it is.
\<close>

fun py_round :: "pyfloat \<Rightarrow> nat \<Rightarrow> pyfloat" where
  "py_round (Finite x) ndigits =
     float_round (of_int (round_half_even (x * 10 ^ ndigits)) / 10 ^ ndigits)"
| "py_round Nonfinite ndigits = Nonfinite"

fun fmt_float :: "pyfloat \<Rightarrow> fmt_arg" where
  "fmt_float (Finite x) = Real x"
| "fmt_float Nonfinite = Str ''nonfinite''"

subsection \<open>The summary\<close>

record Summary =
  total_clauses :: nat
  avg_confidence :: pyfloat
  low_confidence_count :: nat
  clause_type_distribution :: "(string \<times> nat) list"

text \<open>
  The dictionary \<^verbatim>\<open>type_distribution\<close> is an association list in insertion order;
  \<open>AList.update\<close> overwrites the value of a present key in place and appends an absent
  one, as the assignment to a \<^verbatim>\<open>dict\<close> does.
\<close>

fun count_types :: "ClauseAnalysis list \<Rightarrow> (string \<times> nat) list \<Rightarrow> (string \<times> nat) list" where
  "count_types [] type_distribution = type_distribution"
| "count_types (analysis # rest) type_distribution =
     count_types rest
       (AList.update (clause_type analysis)
          ((case map_of type_distribution (clause_type analysis) of None \<Rightarrow> 0 | Some n \<Rightarrow> n) + 1)
          type_distribution)"

text \<open>
  \<^verbatim>\<open>get_analysis_summary\<close>, lines 324 to 353. The division of line 334 is outside any
  \<^verbatim>\<open>try\<close>: an exception of it would leave the function.
\<close>

definition get_analysis_summary ::
  "(real list \<Rightarrow> pyfloat) \<Rightarrow> 's NLPAnalyzer \<Rightarrow> ClauseAnalysis list \<Rightarrow> 's world
     \<Rightarrow> (py_exception + Summary) \<times> 's world" where
  "get_analysis_summary py_sum self analyses w =
     (if analyses = []
      then (Inr \<lparr>total_clauses = 0, avg_confidence = Finite 0.0, low_confidence_count = 0,
                 clause_type_distribution = []\<rparr>, w)
      else
        let total = length analyses in
        case py_truediv (py_sum (map confidence_score analyses)) total of
          Inl e \<Rightarrow> (Inl e, w)
        | Inr avg \<Rightarrow>
            (let low = sum_list (map (\<lambda>a. 1)
                         (filter (\<lambda>a. confidence_score a < confidence_threshold self) analyses));
                 type_distribution = count_types analyses [];
                 summary = \<lparr>total_clauses = total, avg_confidence = py_round avg 3,
                            low_confidence_count = low,
                            clause_type_distribution = type_distribution\<rparr>
             in (Inr summary,
                 logger INFO ''Analysis summary: {}''
                   [Nat total, fmt_float (py_round avg 3), Nat low, Counts type_distribution] w)))"

section \<open>The outcomes of the classifier on a run\<close>

text \<open>
  The classifier is called once per clause, in order, each call in the state the previous
  one left. \<open>predict_outcomes\<close> lists what these calls do (raise, or return a
  classification): it names "the clauses the classifier fails on" for a stateful
  collaborator.
\<close>

fun predict_outcomes ::
  "'s LegalBERTClassifier \<Rightarrow> string list \<Rightarrow> 's \<Rightarrow> (py_exception + classification) list" where
  "predict_outcomes c [] s = []"
| "predict_outcomes c (t # ts) s =
     fst (predict c t s) # predict_outcomes c ts (snd (predict c t s))"

section \<open>A concrete analyzer\<close>

text \<open>
  A small instance on which the functions are run: the outside state counts the calls,
  the classifier raises on the text \<open>''bad''\<close> and answers every other text alike, the
  embedding generator raises on \<open>''noemb''\<close>, and the threshold is the default 0.75 of
  \<^verbatim>\<open>__init__\<close>.
\<close>

definition demo_classifier :: "nat LegalBERTClassifier" where
  "demo_classifier =
     \<lparr>predict = (\<lambda>t n.
        (if t = ''bad'' then Inl (Exception ''model failure'')
         else Inr (''Confidentiality'', 0.92, [(''Confidentiality'', 0.92), (''NDA'', 0.05)]),
         Suc n))\<rparr>"

definition demo_embedder :: "nat EmbeddingGenerator" where
  "demo_embedder =
     \<lparr>generate_embedding = (\<lambda>t n.
        (if t = ''noemb'' then Inl (Exception ''no embedding'') else Inr [1, 0], Suc n)),
      generate_embeddings_batch = (\<lambda>ts use_cache batch_size n.
        (Inr (map (\<lambda>t. Some [1, 0]) ts), Suc n))\<rparr>"

definition demo_analyzer :: "nat NLPAnalyzer" where
  "demo_analyzer =
     \<lparr>classifier = demo_classifier, embedding_generator = demo_embedder,
      confidence_threshold = 0.75\<rparr>"

definition demo_world :: "nat world" where
  "demo_world = \<lparr>ext = 0, calls = [], logged = []\<rparr>"

definition demo_clauses :: "Clause list" where
  "demo_clauses =
     [\<lparr>Clause.clause_id = ''c1'', text' = ''first''\<rparr>,
      \<lparr>Clause.clause_id = ''c2'', text' = ''second''\<rparr>,
      \<lparr>Clause.clause_id = ''c3'', text' = ''bad''\<rparr>,
      \<lparr>Clause.clause_id = ''c4'', text' = ''fourth''\<rparr>,
      \<lparr>Clause.clause_id = ''c5'', text' = ''fifth''\<rparr>]"

definition demo_analysis :: "string \<Rightarrow> string \<Rightarrow> real \<Rightarrow> ClauseAnalysis" where
  "demo_analysis cid ctype conf =
     \<lparr>clause_id = cid, clause_text = ''text of '' @ cid, clause_type = ctype,
      confidence_score = conf, embeddings = None, alternative_types = [(ctype, conf)]\<rparr>"

definition demo_analyses :: "ClauseAnalysis list" where
  "demo_analyses =
     [demo_analysis ''a1'' ''Confidentiality'' 0.9,
      demo_analysis ''a2'' ''Termination'' 0.5,
      demo_analysis ''a3'' ''Confidentiality'' 0.8,
      demo_analysis ''a4'' ''Other'' 0.3]"


text \<open>
  Two lists whose confidences are doubles: in the first the float sum and quotient are
  exact; in the second the sum \<open>1 / 8 + 1 / 2 ^ 56\<close> lies halfway between two doubles.
\<close>

definition demo_exact_analyses :: "ClauseAnalysis list" where
  "demo_exact_analyses =
     [demo_analysis ''e1'' ''Confidentiality'' (1 / 2),
      demo_analysis ''e2'' ''Confidentiality'' (3 / 4)]"

definition demo_tie_analyses :: "ClauseAnalysis list" where
  "demo_tie_analyses =
     [demo_analysis ''t1'' ''Other'' (1 / 16),
      demo_analysis ''t2'' ''Other'' (1 / 16 + 1 / 2 ^ 56)]"

text \<open>
  The same analyzer with a batched embedding call that answers with one entry only,
  whatever the number of texts.
\<close>

definition demo_truncating_analyzer :: "nat NLPAnalyzer" where
  "demo_truncating_analyzer =
     demo_analyzer\<lparr>embedding_generator :=
       demo_embedder\<lparr>generate_embeddings_batch :=
         (\<lambda>ts use_cache batch_size n. (Inr (take 1 (map (\<lambda>t. Some [1, 0]) ts)), Suc n))\<rparr>\<rparr>"

lemmas demo_defs = demo_classifier_def demo_embedder_def demo_analyzer_def demo_world_def
  demo_clauses_def demo_analysis_def demo_analyses_def demo_exact_analyses_def
  demo_tie_analyses_def

section \<open>The collaborator calls and the log\<close>

lemma logger_keeps [simp]:
  "ext (logger l m a w) = ext w"
  "calls (logger l m a w) = calls w"
  by (simp_all add: logger_def)

lemma call_predict_eq:
  "call_predict self t w =
     (fst (predict (classifier self) t (ext w)),
      w\<lparr>ext := snd (predict (classifier self) t (ext w)), calls := calls w @ [Predict t]\<rparr>)"
  by (simp add: call_predict_def split: prod.splits)

lemma call_generate_embedding_eq:
  "call_generate_embedding self t w =
     (fst (generate_embedding (embedding_generator self) t (ext w)),
      w\<lparr>ext := snd (generate_embedding (embedding_generator self) t (ext w)),
        calls := calls w @ [GenerateEmbedding t]\<rparr>)"
  by (simp add: call_generate_embedding_def split: prod.splits)

lemma call_generate_embeddings_batch_eq:
  "call_generate_embeddings_batch self ts uc bs w =
     (fst (generate_embeddings_batch (embedding_generator self) ts uc bs (ext w)),
      w\<lparr>ext := snd (generate_embeddings_batch (embedding_generator self) ts uc bs (ext w)),
        calls := calls w @ [GenerateEmbeddingsBatch ts uc bs]\<rparr>)"
  by (simp add: call_generate_embeddings_batch_def split: prod.splits)

section \<open>Fallback synthesis is total and fixed\<close>

lemma create_fallback_analysis_result:
  "fst (create_fallback_analysis self clause error_msg w) =
     Inr \<lparr>clause_id = Clause.clause_id clause, clause_text = text' clause,
          clause_type = ''Other'', confidence_score = 0, embeddings = None,
          alternative_types = [(''Other'', 0)]\<rparr>"
  by (simp add: create_fallback_analysis_def ClauseAnalysis_init_def)

text \<open>
  Claim C3. For every clause and every error message, in every world,
  \<^verbatim>\<open>_create_fallback_analysis\<close> returns a record (it raises nothing) whose type is
  "Other", whose confidence is 0.0, whose embedding is absent, whose alternatives are
  the single pair ("Other", 0.0), and whose id and text are those of the clause.
\<close>

theorem C3_fallback_total_and_fixed:
  "\<exists>a. fst (create_fallback_analysis self clause error_msg w) = Inr a
     \<and> clause_type a = ''Other''
     \<and> confidence_score a = 0.0
     \<and> embeddings a = None
     \<and> alternative_types a = [(''Other'', 0.0)]
     \<and> clause_id a = Clause.clause_id clause
     \<and> clause_text a = text' clause"
  by (simp add: create_fallback_analysis_def ClauseAnalysis_init_def)

section \<open>Single-clause analysis: outcomes\<close>

lemma analyze_clause_handler_fallback:
  assumes "\<not> is_InferenceError e"
  shows "fst (analyze_clause_handler self clause e w) =
           Inr \<lparr>clause_id = Clause.clause_id clause, clause_text = text' clause,
                clause_type = ''Other'', confidence_score = 0, embeddings = None,
                alternative_types = [(''Other'', 0)]\<rparr>"
  using assms
  by (simp add: analyze_clause_handler_def create_fallback_analysis_def ClauseAnalysis_init_def)

lemma analyze_clause_handler_reraises:
  assumes "is_InferenceError e"
  shows "analyze_clause_handler self clause e w = (Inl e, w)"
  using assms by (simp add: analyze_clause_handler_def)


lemma analyze_clause_with_returns:
  assumes "fst (predict (classifier self) (text' clause) (ext w)) = Inr (ctype, confidence, alternatives)"
  shows "fst (analyze_clause_with ctor self clause w) =
           (case ctor (Clause.clause_id clause) (text' clause) ctype confidence
                   (case fst (generate_embedding (embedding_generator self) (text' clause)
                                (snd (predict (classifier self) (text' clause) (ext w)))) of
                      Inr v \<Rightarrow> Some v | Inl e \<Rightarrow> None)
                   alternatives of
              Inr a \<Rightarrow> Inr a
            | Inl e \<Rightarrow>
                if is_InferenceError e then Inl e
                else Inr \<lparr>clause_id = Clause.clause_id clause, clause_text = text' clause,
                          clause_type = ''Other'', confidence_score = 0.0, embeddings = None,
                          alternative_types = [(''Other'', 0.0)]\<rparr>)"
proof (cases "fst (generate_embedding (embedding_generator self) (text' clause)
                     (snd (predict (classifier self) (text' clause) (ext w))))")
  case (Inl e)
  show ?thesis
    using assms Inl
    by (simp add: analyze_clause_with_def call_predict_eq call_generate_embedding_eq Let_def
          analyze_clause_handler_fallback analyze_clause_handler_reraises split: sum.splits)
next
  case (Inr v)
  show ?thesis
    using assms Inr
    by (simp add: analyze_clause_with_def call_predict_eq call_generate_embedding_eq Let_def
          analyze_clause_handler_fallback analyze_clause_handler_reraises split: sum.splits)
qed


lemma analyze_clause_returns:
  assumes "fst (predict (classifier self) (text' clause) (ext w)) = Inr (ctype, confidence, alternatives)"
  shows "fst (analyze_clause self clause w) =
           Inr \<lparr>clause_id = Clause.clause_id clause, clause_text = text' clause,
                clause_type = ctype, confidence_score = confidence,
                embeddings =
                  (case fst (generate_embedding (embedding_generator self) (text' clause)
                               (snd (predict (classifier self) (text' clause) (ext w)))) of
                     Inr v \<Rightarrow> Some v | Inl e \<Rightarrow> None),
                alternative_types = alternatives\<rparr>"
  unfolding analyze_clause_def analyze_clause_with_returns [OF assms]
  by (simp add: ClauseAnalysis_init_def)



text \<open>
  Claim C5. When the classifier returns (category, confidence, alternatives) for the
  clause's text, \<^verbatim>\<open>analyze_clause\<close> returns a record with the clause's id and text, with
  exactly these three values (the alternatives as the classifier ordered them), and with
  the embedding generator's vector, or with no embedding when \<^verbatim>\<open>generate_embedding\<close>
  raises. The embedding call is the one made after \<^verbatim>\<open>predict\<close>, in the state \<^verbatim>\<open>predict\<close>
  left.
\<close>

theorem C5_analyze_clause_record:
  assumes "fst (predict (classifier self) (text' clause) (ext w)) = Inr (ctype, confidence, alternatives)"
  shows "\<exists>a. fst (analyze_clause self clause w) = Inr a
           \<and> clause_id a = Clause.clause_id clause
           \<and> clause_text a = text' clause
           \<and> clause_type a = ctype
           \<and> confidence_score a = confidence
           \<and> alternative_types a = alternatives
           \<and> embeddings a =
               (case fst (generate_embedding (embedding_generator self) (text' clause)
                            (snd (predict (classifier self) (text' clause) (ext w)))) of
                  Inr v \<Rightarrow> Some v
                | Inl e \<Rightarrow> None)"
  by (simp add: analyze_clause_returns [OF assms])

theorem C5_analyze_clause_record_witness:
  "(\<exists>a. fst (analyze_clause demo_analyzer
              \<lparr>Clause.clause_id = ''c1'', text' = ''All information is confidential.''\<rparr>
              demo_world) = Inr a
        \<and> clause_id a = ''c1''
        \<and> clause_text a = ''All information is confidential.''
        \<and> clause_type a = ''Confidentiality''
        \<and> confidence_score a = 0.92
        \<and> alternative_types a = [(''Confidentiality'', 0.92), (''NDA'', 0.05)]
        \<and> embeddings a = Some [1, 0])
   \<and> (\<exists>a. fst (analyze_clause demo_analyzer \<lparr>Clause.clause_id = ''c2'', text' = ''noemb''\<rparr>
              demo_world) = Inr a
        \<and> clause_type a = ''Confidentiality''
        \<and> confidence_score a = 0.92
        \<and> alternative_types a = [(''Confidentiality'', 0.92), (''NDA'', 0.05)]
        \<and> embeddings a = None)"
proof -
  let ?c1 = "\<lparr>Clause.clause_id = ''c1'', text' = ''All information is confidential.''\<rparr>"
  let ?c2 = "\<lparr>Clause.clause_id = ''c2'', text' = ''noemb''\<rparr>"
  have h1: "fst (predict (classifier demo_analyzer) (text' ?c1) (ext demo_world)) =
             Inr (''Confidentiality'', 0.92, [(''Confidentiality'', 0.92), (''NDA'', 0.05)])"
    by (simp add: demo_defs)
  have h2: "fst (predict (classifier demo_analyzer) (text' ?c2) (ext demo_world)) =
             Inr (''Confidentiality'', 0.92, [(''Confidentiality'', 0.92), (''NDA'', 0.05)])"
    by (simp add: demo_defs)
  from C5_analyze_clause_record [OF h1] C5_analyze_clause_record [OF h2]
  show ?thesis by (auto simp add: demo_defs)
qed

text \<open>
  Claim C10. The outcome of \<^verbatim>\<open>analyze_clause\<close> (the record, or the exception) does not
  depend on the configured threshold: two analyzers that differ in the threshold only,
  run on the same clause in the same world, give the same outcome, leave the
  collaborators in the same state and make the same calls. Only the log can differ.
\<close>

theorem C10_analyze_clause_threshold_independent:
  "fst (analyze_clause (self\<lparr>confidence_threshold := t1\<rparr>) clause w) =
   fst (analyze_clause (self\<lparr>confidence_threshold := t2\<rparr>) clause w)
   \<and> ext (snd (analyze_clause (self\<lparr>confidence_threshold := t1\<rparr>) clause w)) =
     ext (snd (analyze_clause (self\<lparr>confidence_threshold := t2\<rparr>) clause w))
   \<and> calls (snd (analyze_clause (self\<lparr>confidence_threshold := t1\<rparr>) clause w)) =
     calls (snd (analyze_clause (self\<lparr>confidence_threshold := t2\<rparr>) clause w))"
  by (simp add: analyze_clause_def analyze_clause_with_def analyze_clause_handler_def
        call_predict_eq call_generate_embedding_eq ClauseAnalysis_init_def Let_def
        split: prod.splits sum.splits)

section \<open>Threshold and triage\<close>

text \<open>
  Claim C6. \<^verbatim>\<open>set_confidence_threshold\<close> raises (a \<^verbatim>\<open>ValueError\<close>) exactly when the value
  is outside [0.0, 1.0]. Then the analyzer and the world are what they were. Otherwise
  it returns, the analyzer's threshold is the new value, and a later
  \<^verbatim>\<open>get_low_confidence_clauses\<close> filters by it. It raises for -0.1 and 1.1 and returns for
  0.0 and 1.0.
\<close>

theorem C6_set_confidence_threshold:
  "(isl (fst (set_confidence_threshold self threshold w)) \<longleftrightarrow> \<not> (0 \<le> threshold \<and> threshold \<le> 1))
   \<and> (if 0 \<le> threshold \<and> threshold \<le> 1
       then fst (set_confidence_threshold self threshold w) = Inr ()
            \<and> fst (snd (set_confidence_threshold self threshold w)) =
                self\<lparr>confidence_threshold := threshold\<rparr>
            \<and> confidence_threshold (fst (snd (set_confidence_threshold self threshold w))) = threshold
            \<and> fst (get_low_confidence_clauses
                     (fst (snd (set_confidence_threshold self threshold w))) analyses w') =
                filter (\<lambda>a. confidence_score a < threshold) analyses
       else set_confidence_threshold self threshold w =
              (Inl (ValueError ''Confidence threshold must be between 0.0 and 1.0''), self, w))
   \<and> isl (fst (set_confidence_threshold self (- 0.1) w))
   \<and> isl (fst (set_confidence_threshold self 1.1 w))
   \<and> fst (set_confidence_threshold self 0.0 w) = Inr ()
   \<and> fst (set_confidence_threshold self 1.0 w) = Inr ()"
  by (simp add: set_confidence_threshold_def get_low_confidence_clauses_def Let_def)

text \<open>
  Claim C7. \<^verbatim>\<open>get_low_confidence_clauses\<close> returns the records whose confidence is
  strictly below the threshold, in the order of the input: the result is the input
  filtered, a subsequence of it, with exactly those members. With the confidences
  0.9, 0.5, 0.8, 0.3 and the threshold 0.75 it returns the second and the fourth record.
\<close>

theorem C7_get_low_confidence_clauses:
  "fst (get_low_confidence_clauses self analyses w) =
     filter (\<lambda>a. confidence_score a < confidence_threshold self) analyses
   \<and> subseq (fst (get_low_confidence_clauses self analyses w)) analyses
   \<and> (\<forall>a. a \<in> set (fst (get_low_confidence_clauses self analyses w)) \<longleftrightarrow>
            a \<in> set analyses \<and> confidence_score a < confidence_threshold self)
   \<and> (confidence_threshold self = 0.75 \<and> map confidence_score analyses = [0.9, 0.5, 0.8, 0.3] \<longrightarrow>
        fst (get_low_confidence_clauses self analyses w) = [analyses ! 1, analyses ! 3])"
proof -
  have ex: "filter (\<lambda>a. confidence_score a < 0.75) analyses = [analyses ! 1, analyses ! 3]"
    if "map confidence_score analyses = [0.9, 0.5, 0.8, 0.3]"
  proof -
    from that obtain a b c d where abcd: "analyses = [a, b, c, d]"
      by (auto simp: map_eq_Cons_conv)
    with that show ?thesis by simp
  qed
  show ?thesis
    by (auto simp add: get_low_confidence_clauses_def Let_def ex)
qed

theorem C7_get_low_confidence_clauses_witness:
  "fst (get_low_confidence_clauses demo_analyzer demo_analyses demo_world) =
     [demo_analysis ''a2'' ''Termination'' 0.5, demo_analysis ''a4'' ''Other'' 0.3]"
proof -
  have h: "confidence_threshold demo_analyzer = 0.75
           \<and> map confidence_score demo_analyses = [0.9, 0.5, 0.8, 0.3]"
    by (simp add: demo_defs)
  from C7_get_low_confidence_clauses [of demo_analyzer demo_analyses demo_world] h
  have "fst (get_low_confidence_clauses demo_analyzer demo_analyses demo_world) =
        [demo_analyses ! 1, demo_analyses ! 3]"
    by blast
  then show ?thesis by (simp add: demo_analyses_def)
qed

section \<open>Float rounding\<close>

lemma round_half_even_close: "\<bar>real_of_int (round_half_even x) - x\<bar> \<le> 1 / 2"
  unfolding round_half_even_def Let_def by (auto; linarith)

lemma pow2_powr: "pow2 e = 2 powr (real_of_int e)"
  by (simp add: pow2_def powr_real_of_int inverse_eq_divide)

lemma pow2_pos [simp]: "0 < pow2 e"
  by (simp add: pow2_powr)

lemma pow2_diff: "pow2 (k - j) = pow2 k / pow2 j"
  by (simp add: pow2_powr powr_diff)

lemma floor_log2_eq:
  assumes "pow2 k \<le> \<bar>x\<bar>" "\<bar>x\<bar> < pow2 (k + 1)"
  shows "\<lfloor>log 2 \<bar>x\<bar>\<rfloor> = k"
proof -
  have pos: "0 < \<bar>x\<bar>" using assms(1) pow2_pos [of k] by linarith
  show ?thesis
    using assms floor_log_eq_powr_iff [of "\<bar>x\<bar>" 2 k] pos
    by (simp add: pow2_powr)
qed

lemma float_round_binade:
  assumes "pow2 k \<le> \<bar>x\<bar>" "\<bar>x\<bar> < pow2 (k + 1)"
  shows "float_round x =
           (let ulp = pow2 (max (k - 52) (- 1074));
                r = of_int (round_half_even (x / ulp)) * ulp
            in if 2 ^ 1024 \<le> \<bar>r\<bar> then Nonfinite else Finite r)"
proof -
  have "0 < \<bar>x\<bar>" using assms(1) pow2_pos [of k] by linarith
  then have "x \<noteq> 0" by simp
  then show ?thesis
    by (simp add: float_round_def floor_log2_eq [OF assms])
qed

text \<open>A positive integer below \<open>2 ^ 63\<close> is converted to a positive float.\<close>

lemma float_round_of_length:
  assumes "1 \<le> x" "x < 2 ^ 63"
  shows "\<exists>d. float_round x = Finite d \<and> 0 < d"
proof -
  define k where "k = \<lfloor>log 2 \<bar>x\<bar>\<rfloor>"
  have xpos: "0 < x" using assms by simp
  have k: "pow2 k \<le> x" "x < pow2 (k + 1)"
    using floor_log_eq_powr_iff [of x 2 k] xpos unfolding k_def by (simp_all add: pow2_powr)
  have k0: "0 \<le> k"
    unfolding k_def using assms(1) by simp
  define ulp where "ulp = pow2 (k - 52)"
  have ulp: "ulp = pow2 k / 2 ^ 52"
    unfolding ulp_def pow2_diff by (simp add: pow2_def)
  have ulp_pos: "0 < ulp" unfolding ulp_def by simp
  have ulp_le: "ulp \<le> x / 2 ^ 52"
    unfolding ulp using k(1) by (simp add: divide_right_mono)
  define r where "r = of_int (round_half_even (x / ulp)) * ulp"
  have "\<bar>real_of_int (round_half_even (x / ulp)) - x / ulp\<bar> \<le> 1 / 2"
    by (rule round_half_even_close)
  then have "\<bar>real_of_int (round_half_even (x / ulp)) * ulp - x\<bar> \<le> ulp / 2"
    using ulp_pos by (simp add: field_simps abs_le_iff)
  then have close: "\<bar>r - x\<bar> \<le> x / 2 ^ 53"
    unfolding r_def using ulp_le by simp
  have small: "x / 2 ^ 53 < x" using xpos by simp
  have lo: "x - r \<le> x / 2 ^ 53" and hi: "r - x \<le> x / 2 ^ 53"
    using close by linarith+
  have rpos: "0 < r" using lo small by linarith
  have "r \<le> x + x / 2 ^ 53" using hi by linarith
  also have "\<dots> < 2 ^ 1024" using assms(2) by simp
  finally have rlt: "\<bar>r\<bar> < 2 ^ 1024" using rpos by simp
  have m: "max (k - 52) (- 1074) = k - 52" using k0 by simp
  have kb: "pow2 k \<le> \<bar>x\<bar>" "\<bar>x\<bar> < pow2 (k + 1)"
    using k xpos by simp_all
  have "float_round x = (if 2 ^ 1024 \<le> \<bar>r\<bar> then Nonfinite else Finite r)"
    unfolding float_round_binade [OF kb] m Let_def r_def ulp_def ..
  then have "float_round x = Finite r"
    using rlt by simp
  with rpos show ?thesis by blast
qed


text \<open>
  Some values of the rounding: the double of 0.1, the overflow at \<open>2 ^ 1024\<close>, the largest
  double, a tie between two subnormal doubles and the underflow of half the smallest one.
\<close>

lemma float_round_tenth: "float_round (1 / 10) = Finite (3602879701896397 / 36028797018963968)"
  by (subst float_round_binade [where k = "- 4"])
     (simp_all add: pow2_def round_half_even_def Let_def)

lemma float_round_overflow: "float_round (2 ^ 1024) = Nonfinite"
  by (subst float_round_binade [where k = 1024])
     (simp_all add: pow2_def round_half_even_def Let_def)

lemma float_round_largest: "float_round (2 ^ 1024 - 2 ^ 971) = Finite (2 ^ 1024 - 2 ^ 971)"
  by (subst float_round_binade [where k = 1023])
     (simp_all add: pow2_def round_half_even_def Let_def)

lemma float_round_subnormal_tie: "float_round (3 / 2 ^ 1075) = Finite (1 / 2 ^ 1073)"
  by (subst float_round_binade [where k = "- 1074"])
     (simp_all add: pow2_def round_half_even_def Let_def)

lemma float_round_underflow: "float_round (1 / 2 ^ 1075) = Finite 0"
  by (subst float_round_binade [where k = "- 1075"])
     (simp_all add: pow2_def round_half_even_def Let_def)


lemma float_round_sixteenth: "float_round (1 / 16) = Finite (1 / 16)"
  by (subst float_round_binade [where k = "- 4"])
     (simp_all add: pow2_def round_half_even_def Let_def)

lemma float_round_tie: "float_round (1 / 16 + (1 / 16 + 1 / 2 ^ 56)) = Finite (1 / 8)"
  by (subst float_round_binade [where k = "- 3"])
     (simp_all add: pow2_def round_half_even_def Let_def)

lemma float_round_two: "float_round 2 = Finite 2"
  by (subst float_round_binade [where k = 1])
     (simp_all add: pow2_def round_half_even_def Let_def)

lemma float_round_062:
  "float_round (62 / 1000) = Finite (1116892707587883 / 18014398509481984)"
  by (subst float_round_binade [where k = "- 5"])
     (simp_all add: pow2_def round_half_even_def Let_def)

lemma float_round_half: "float_round (1 / 2) = Finite (1 / 2)"
  by (subst float_round_binade [where k = "- 1"])
     (simp_all add: pow2_def round_half_even_def Let_def)

lemma float_round_five_quarters: "float_round (5 / 4) = Finite (5 / 4)"
  by (subst float_round_binade [where k = 0])
     (simp_all add: pow2_def round_half_even_def Let_def)

lemma float_round_five_eighths: "float_round (5 / 8) = Finite (5 / 8)"
  by (subst float_round_binade [where k = "- 1"])
     (simp_all add: pow2_def round_half_even_def Let_def)

lemma sum_tie: "sum_left_to_right [1 / 16, 1 / 16 + 1 / 2 ^ 56] = Finite (1 / 8)"
proof -
  have "sum_left_to_right [1 / 16, 1 / 16 + 1 / 2 ^ 56] =
          py_float_add (py_float_add (Finite 0) (Finite (1 / 16))) (Finite (1 / 16 + 1 / 2 ^ 56))"
    by (simp add: sum_left_to_right_def)
  also have "py_float_add (Finite 0) (Finite (1 / 16)) = Finite (1 / 16)"
    using float_round_sixteenth by simp
  also have "py_float_add (Finite (1 / 16)) (Finite (1 / 16 + 1 / 2 ^ 56)) =
               float_round (1 / 16 + (1 / 16 + 1 / 2 ^ 56))"
    by (simp only: py_float_add.simps)
  also have "\<dots> = Finite (1 / 8)" by (rule float_round_tie)
  finally show ?thesis .
qed

lemma truediv_tie: "py_truediv (Finite (1 / 8)) 2 = Inr (Finite (1 / 16))"
proof -
  have "float_round (real 2) = Finite 2" using float_round_two by simp
  moreover have "float_round (1 / 8 / 2) = Finite (1 / 16)"
    using float_round_sixteenth by simp
  ultimately show ?thesis by (simp add: py_truediv_def)
qed

lemma round_tie: "py_round (Finite (1 / 16)) 3 = Finite (1116892707587883 / 18014398509481984)"
proof -
  have "round_half_even (1 / 16 * 10 ^ 3) = 62"
    by (simp add: round_half_even_def Let_def)
  then have "py_round (Finite (1 / 16)) 3 = float_round (62 / 1000)"
    by simp
  then show ?thesis by (simp only: float_round_062)
qed

section \<open>Summary\<close>

lemma count_types_map_of:
  "map_of (count_types xs d) ty =
     (if ty \<in> clause_type ` set xs
      then Some ((case map_of d ty of None \<Rightarrow> 0 | Some n \<Rightarrow> n)
                   + length (filter (\<lambda>a. clause_type a = ty) xs))
      else map_of d ty)"
proof (induction xs arbitrary: d)
  case Nil
  then show ?case by simp
next
  case (Cons a xs)
  have none: "filter (\<lambda>b. clause_type b = ty) xs = []" if "ty \<notin> clause_type ` set xs"
    using that by (auto simp add: filter_empty_conv)
  show ?case
  proof (cases "clause_type a = ty")
    case True
    then show ?thesis
      by (cases "ty \<in> clause_type ` set xs")
         (simp_all add: Cons.IH update_conv' none split: option.splits)
  next
    case False
    then show ?thesis
      by (cases "ty \<in> clause_type ` set xs")
         (auto simp add: Cons.IH update_conv' split: option.splits)
  qed
qed

lemma count_types_distinct:
  "distinct (map fst d) \<Longrightarrow> distinct (map fst (count_types xs d))"
  by (induction xs arbitrary: d) (auto simp add: distinct_update)

lemma sum_ones: "sum_list (map (\<lambda>a. 1::nat) xs) = length xs"
  by (induction xs) auto


lemma float_round_zero [simp]: "float_round 0 = Finite 0"
  by (simp add: float_round_def)

lemma py_round3_near:
  "\<exists>k::int. py_round (Finite x) 3 = float_round (of_int k / 1000)
             \<and> \<bar>of_int k / 1000 - x\<bar> \<le> 1 / 2000"
proof -
  have "\<bar>real_of_int (round_half_even (x * 1000)) - x * 1000\<bar> \<le> 1 / 2"
    by (rule round_half_even_close)
  then have "\<bar>real_of_int (round_half_even (x * 1000)) / 1000 - x\<bar> \<le> 1 / 2000"
    by (simp add: field_simps abs_le_iff)
  then show ?thesis by auto
qed

lemma py_truediv_length:
  assumes "0 < n" "n < 2 ^ 63"
  shows "\<exists>d. float_round (real n) = Finite d \<and> 0 < d
             \<and> py_truediv a n =
                 Inr (case a of Finite x \<Rightarrow> float_round (x / d) | Nonfinite \<Rightarrow> Nonfinite)"
proof -
  have "1 \<le> real n" using assms(1) by simp
  moreover have "real n < 2 ^ 63"
    using assms(2) by (metis of_nat_less_iff of_nat_numeral of_nat_power)
  ultimately obtain d where d: "float_round (real n) = Finite d" "0 < d"
    using float_round_of_length by blast
  then show ?thesis
    by (cases a) (simp_all add: py_truediv_def)
qed

text \<open>
  Claim C8. For a list of analyses (shorter than \<open>2 ^ 63\<close>, as every Python
  list is) \<^verbatim>\<open>get_analysis_summary\<close> returns a summary \<open>s\<close> and raises nothing, whatever the
  algorithm of \<^verbatim>\<open>sum\<close>: the total is the length of the list; the low-confidence count is
  the number of records strictly below the threshold; the distribution maps each clause
  type that occurs to the number of its records, has no other key and no key twice. For
  the empty list the summary is the all-zero one, and nothing is divided. Otherwise the
  average is \<^verbatim>\<open>round(q, 3)\<close> for the float quotient \<open>q\<close> of the float sum of the confidences
  by the count: not finite when \<open>q\<close> is not, else the double nearest to a multiple of
  1/1000 that is at most 1/2000 away from \<open>q\<close>. When the float sum and the float quotient
  are exact, it is the arithmetic mean rounded to three decimals (a tie to the even
  digit), converted to the nearest double.
\<close>

theorem C8_get_analysis_summary:
  assumes "length analyses < 2 ^ 63"
  shows "\<exists>s. fst (get_analysis_summary py_sum self analyses w) = Inr s
     \<and> total_clauses s = length analyses
     \<and> low_confidence_count s =
         length (filter (\<lambda>a. confidence_score a < confidence_threshold self) analyses)
     \<and> map_of (clause_type_distribution s) ty =
         (if ty \<in> clause_type ` set analyses
          then Some (length (filter (\<lambda>a. clause_type a = ty) analyses))
          else None)
     \<and> distinct (map fst (clause_type_distribution s))
     \<and> (if analyses = []
         then s = \<lparr>total_clauses = 0, avg_confidence = Finite 0.0, low_confidence_count = 0,
                   clause_type_distribution = []\<rparr>
         else \<exists>q. py_truediv (py_sum (map confidence_score analyses)) (length analyses) = Inr q
                \<and> avg_confidence s = py_round q 3
                \<and> (case q of
                      Nonfinite \<Rightarrow> avg_confidence s = Nonfinite
                    | Finite x \<Rightarrow>
                        \<exists>k::int. avg_confidence s = float_round (of_int k / 1000)
                                  \<and> \<bar>of_int k / 1000 - x\<bar> \<le> 1 / 2000)
                \<and> (py_sum (map confidence_score analyses) =
                      Finite (sum_list (map confidence_score analyses))
                    \<and> float_round (real (length analyses)) = Finite (real (length analyses))
                    \<and> float_round (sum_list (map confidence_score analyses)
                                     / real (length analyses)) =
                        Finite (sum_list (map confidence_score analyses) / real (length analyses))
                    \<longrightarrow> avg_confidence s =
                          float_round
                            (of_int (round_half_even
                               (sum_list (map confidence_score analyses)
                                  / real (length analyses) * 1000)) / 1000)))"
proof (cases "analyses = []")
  case True
  then show ?thesis by (simp add: get_analysis_summary_def)
next
  case False
  let ?scores = "map confidence_score analyses"
  let ?n = "length analyses"
  from False have npos: "0 < ?n" by simp
  from py_truediv_length [OF npos assms, of "py_sum ?scores"]
  obtain d where d: "float_round (real ?n) = Finite d" "0 < d"
    and div: "py_truediv (py_sum ?scores) ?n =
                Inr (case py_sum ?scores of Finite x \<Rightarrow> float_round (x / d)
                                          | Nonfinite \<Rightarrow> Nonfinite)"
    by blast
  define q where "q = (case py_sum ?scores of Finite x \<Rightarrow> float_round (x / d)
                                          | Nonfinite \<Rightarrow> Nonfinite)"
  have divq: "py_truediv (py_sum ?scores) ?n = Inr q"
    unfolding q_def by (rule div)
  define s where "s = \<lparr>total_clauses = ?n, avg_confidence = py_round q 3,
       low_confidence_count =
         sum_list (map (\<lambda>a. 1)
           (filter (\<lambda>a. confidence_score a < confidence_threshold self) analyses)),
       clause_type_distribution = count_types analyses []\<rparr>"
  have res: "fst (get_analysis_summary py_sum self analyses w) = Inr s"
    using False by (simp add: get_analysis_summary_def divq Let_def s_def)
  have total: "total_clauses s = ?n" by (simp add: s_def)
  have low: "low_confidence_count s =
               length (filter (\<lambda>a. confidence_score a < confidence_threshold self) analyses)"
    by (simp add: s_def sum_ones del: One_nat_def)
  have types: "map_of (clause_type_distribution s) ty =
         (if ty \<in> clause_type ` set analyses
          then Some (length (filter (\<lambda>a. clause_type a = ty) analyses))
          else None)"
    by (simp add: s_def count_types_map_of)
  have keys: "distinct (map fst (clause_type_distribution s))"
    unfolding s_def by (simp add: count_types_distinct)
  have avg: "avg_confidence s = py_round q 3" by (simp add: s_def)
  have near: "case q of
                Nonfinite \<Rightarrow> avg_confidence s = Nonfinite
              | Finite x \<Rightarrow>
                  \<exists>k::int. avg_confidence s = float_round (of_int k / 1000)
                            \<and> \<bar>of_int k / 1000 - x\<bar> \<le> 1 / 2000"
    unfolding avg using py_round3_near by (cases q) simp_all
  have exact: "avg_confidence s =
                 float_round (of_int (round_half_even (sum_list ?scores / real ?n * 1000)) / 1000)"
    if "py_sum ?scores = Finite (sum_list ?scores)"
       "float_round (real ?n) = Finite (real ?n)"
       "float_round (sum_list ?scores / real ?n) = Finite (sum_list ?scores / real ?n)"
  proof -
    from that(2) d(1) have "d = real ?n" by simp
    with that(1,3) have "q = Finite (sum_list ?scores / real ?n)" by (simp add: q_def)
    then show ?thesis unfolding avg by simp
  qed
  show ?thesis
    using False res total low types keys divq avg near exact by auto
qed


theorem C8_get_analysis_summary_witness:
  "\<exists>s. fst (get_analysis_summary sum_left_to_right demo_analyzer demo_exact_analyses demo_world)
          = Inr s
      \<and> total_clauses s = 2
      \<and> avg_confidence s = Finite (5 / 8)
      \<and> low_confidence_count s = 1
      \<and> map_of (clause_type_distribution s) ''Confidentiality'' = Some 2"
proof -
  have len: "length demo_exact_analyses = 2" and ne: "demo_exact_analyses \<noteq> []"
    by (simp_all add: demo_defs)
  have h: "length demo_exact_analyses < 2 ^ 63" unfolding len by simp
  have scores: "map confidence_score demo_exact_analyses = [1 / 2, 3 / 4]"
    by (simp add: demo_defs)
  have sum: "sum_left_to_right (map confidence_score demo_exact_analyses) =
               Finite (sum_list (map confidence_score demo_exact_analyses))"
    unfolding scores using float_round_half float_round_five_quarters
    by (simp add: sum_left_to_right_def)
  have two: "float_round (real (length demo_exact_analyses)) =
               Finite (real (length demo_exact_analyses))"
    unfolding len using float_round_two by simp
  have quot: "float_round (sum_list (map confidence_score demo_exact_analyses)
                             / real (length demo_exact_analyses)) =
                Finite (sum_list (map confidence_score demo_exact_analyses)
                          / real (length demo_exact_analyses))"
    unfolding scores len using float_round_five_eighths by simp
  have rnd: "float_round (of_int (round_half_even
                (sum_list (map confidence_score demo_exact_analyses)
                   / real (length demo_exact_analyses) * 1000)) / 1000) = Finite (5 / 8)"
    unfolding scores len using float_round_five_eighths
    by (simp add: round_half_even_def Let_def)
  have low: "length (filter (\<lambda>a. confidence_score a < confidence_threshold demo_analyzer)
                       demo_exact_analyses) = 1"
    by (simp add: demo_defs)
  have cnt: "(if ''Confidentiality'' \<in> clause_type ` set demo_exact_analyses
              then Some (length (filter (\<lambda>a. clause_type a = ''Confidentiality'')
                                   demo_exact_analyses))
              else None) = Some 2"
    by (simp add: demo_defs)
  from C8_get_analysis_summary [OF h, of sum_left_to_right demo_analyzer demo_world "''Confidentiality''"]
  obtain s where
    r: "fst (get_analysis_summary sum_left_to_right demo_analyzer demo_exact_analyses demo_world)
          = Inr s"
    and t: "total_clauses s = length demo_exact_analyses"
    and l: "low_confidence_count s =
         length (filter (\<lambda>a. confidence_score a < confidence_threshold demo_analyzer)
                   demo_exact_analyses)"
    and m: "map_of (clause_type_distribution s) ''Confidentiality'' =
         (if ''Confidentiality'' \<in> clause_type ` set demo_exact_analyses
          then Some (length (filter (\<lambda>a. clause_type a = ''Confidentiality'')
                               demo_exact_analyses))
          else None)"
    and a: "avg_confidence s =
                          float_round
                            (of_int (round_half_even
                               (sum_list (map confidence_score demo_exact_analyses)
                                  / real (length demo_exact_analyses) * 1000)) / 1000)"
    using ne sum two quot by auto
  from t have t': "total_clauses s = 2" unfolding len .
  from l have l': "low_confidence_count s = 1" unfolding low .
  from m have m': "map_of (clause_type_distribution s) ''Confidentiality'' = Some 2"
    unfolding cnt .
  from a have a': "avg_confidence s = Finite (5 / 8)" unfolding rnd .
  from r t' l' m' a' show ?thesis by blast
qed


text \<open>
  Claim C8 with the exact arithmetic mean in the place of \<open>q\<close> does not hold of the code:
  for the confidences \<open>1 / 16\<close> and \<open>1 / 16 + 1 / 2 ^ 56\<close> the float sum is \<open>1 / 8\<close> (the exact
  sum lies halfway between two doubles and goes to the even one), the float quotient is
  \<open>1 / 16\<close>, a tie that \<^verbatim>\<open>round\<close> takes down to the double of 0.062; the arithmetic mean
  \<open>1 / 16 + 1 / 2 ^ 57\<close> rounds to 0.063, and is more than 1/2000 away from the result.
\<close>

theorem C8_mean_rounding_counterexample:
  "fst (get_analysis_summary sum_left_to_right demo_analyzer demo_tie_analyses demo_world) =
     Inr \<lparr>total_clauses = 2,
          avg_confidence = Finite (1116892707587883 / 18014398509481984),
          low_confidence_count = 2,
          clause_type_distribution = [(''Other'', 2)]\<rparr>
   \<and> sum_list (map confidence_score demo_tie_analyses) / real (length demo_tie_analyses) =
       1 / 16 + 1 / 2 ^ 57
   \<and> round_half_even ((1 / 16 + 1 / 2 ^ 57) * 1000) = 63
   \<and> (1 / 2000 :: real) < \<bar>1116892707587883 / 18014398509481984 - (1 / 16 + 1 / 2 ^ 57)\<bar>"
proof -
  have scores: "map confidence_score demo_tie_analyses = [1 / 16, 1 / 16 + 1 / 2 ^ 56]"
    by (simp add: demo_defs)
  have ne: "demo_tie_analyses \<noteq> []" and len: "length demo_tie_analyses = 2"
    by (simp_all add: demo_defs)
  have q: "py_truediv (sum_left_to_right (map confidence_score demo_tie_analyses))
             (length demo_tie_analyses) = Inr (Finite (1 / 16))"
    unfolding scores len sum_tie by (rule truediv_tie)
  have low: "sum_list (map (\<lambda>a. 1)
               (filter (\<lambda>a. confidence_score a < confidence_threshold demo_analyzer)
                  demo_tie_analyses)) = (2::nat)"
    by (simp add: demo_defs)
  have types: "count_types demo_tie_analyses [] = [(''Other'', 2)]"
    by (simp add: demo_defs)
  have run: "fst (get_analysis_summary sum_left_to_right demo_analyzer demo_tie_analyses
                    demo_world) =
     Inr \<lparr>total_clauses = 2,
          avg_confidence = Finite (1116892707587883 / 18014398509481984),
          low_confidence_count = 2,
          clause_type_distribution = [(''Other'', 2)]\<rparr>"
    using ne
    by (simp add: get_analysis_summary_def Let_def q [unfolded len] round_tie low types len
          del: py_round.simps One_nat_def)
  have mean: "sum_list (map confidence_score demo_tie_analyses)
                / real (length demo_tie_analyses) = 1 / 16 + 1 / 2 ^ 57"
    unfolding scores len by simp
  have r: "round_half_even ((1 / 16 + 1 / 2 ^ 57) * 1000) = 63"
    by (simp add: round_half_even_def Let_def)
  have far: "1 / 2000 < \<bar>1116892707587883 / 18014398509481984 - (1 / 16 + 1 / 2 ^ 57 :: real)\<bar>"
    by simp
  from run mean r far show ?thesis by blast
qed

section \<open>Batch analysis: the three steps\<close>

text \<open>
  Claim C9. On the empty list \<^verbatim>\<open>analyze_clauses\<close> returns the empty list; it calls
  neither collaborator (the calls made are those made before) and leaves their state
  alone.
\<close>

theorem C9_analyze_clauses_empty:
  "fst (analyze_clauses self [] batch_size w) = Inr []
   \<and> calls (snd (analyze_clauses self [] batch_size w)) = calls w
   \<and> ext (snd (analyze_clauses self [] batch_size w)) = ext w"
  by (simp add: analyze_clauses_def analyze_clauses_try_def Let_def)

lemma classify_loop_result:
  "fst (classify_loop self cs (acc, n) w) =
     (acc @ map (case_sum (\<lambda>e. (''Other'', 0.5, [(''Other'', 0.5)])) id)
              (predict_outcomes (classifier self) (map text' cs) (ext w)),
      n + length (filter isl (predict_outcomes (classifier self) (map text' cs) (ext w))))"
proof (induction cs arbitrary: acc n w)
  case Nil
  then show ?case by simp
next
  case (Cons c cs)
  show ?case
  proof (cases "fst (predict (classifier self) (text' c) (ext w))")
    case (Inl e)
    then show ?thesis by (simp add: call_predict_eq Cons.IH)
  next
    case (Inr r)
    obtain ty conf alts where r: "r = (ty, conf, alts)" by (cases r) auto
    show ?thesis using Inr by (simp add: call_predict_eq Cons.IH r)
  qed
qed

lemma length_predict_outcomes [simp]: "length (predict_outcomes c ts s) = length ts"
  by (induction ts arbitrary: s) auto

lemma embed_loop_length:
  "length (fst (fst (embed_loop self cs (acc, n) w))) = length acc + length cs"
proof (induction cs arbitrary: acc n w)
  case Nil
  then show ?case by simp
next
  case (Cons c cs)
  show ?case
    by (cases "fst (generate_embedding (embedding_generator self) (text' c) (ext w))")
       (simp_all add: call_generate_embedding_eq Cons.IH)
qed

lemma embed_step_length:
  assumes "\<And>ts uc bs s embs.
             fst (generate_embeddings_batch (embedding_generator self) ts uc bs s) = Inr embs
               \<Longrightarrow> length embs = length ts"
  shows "length (fst (fst (embed_step self clauses batch_size w))) = length clauses"
proof (cases "fst (generate_embeddings_batch (embedding_generator self) (map text' clauses) True
                    batch_size (ext w))")
  case (Inl e)
  then show ?thesis
    by (simp add: embed_step_def call_generate_embeddings_batch_eq embed_loop_length Let_def)
next
  case (Inr embs)
  from assms [OF Inr] Inr show ?thesis
    by (simp add: embed_step_def call_generate_embeddings_batch_eq Let_def)
qed

lemma combine_loop_result:
  "combine_loop self triples acc w =
     (Inr (acc @ map (\<lambda>(clause, (ctype, confidence, alternatives), embedding).
                        \<lparr>clause_id = Clause.clause_id clause, clause_text = text' clause,
                         clause_type = ctype, confidence_score = confidence,
                         embeddings = embedding, alternative_types = alternatives\<rparr>) triples),
      w)"
proof (induction triples arbitrary: acc)
  case Nil
  then show ?case by simp
next
  case (Cons x xs)
  obtain clause ctype confidence alternatives embedding
    where x: "x = (clause, (ctype, confidence, alternatives), embedding)"
    by (cases x) auto
  show ?case by (simp add: x ClauseAnalysis_init_def Cons.IH)
qed

lemma analyze_clauses_try_result:
  "\<exists>embs.
     fst (analyze_clauses_try self clauses batch_size w) =
       Inr (map (\<lambda>(clause, (ctype, confidence, alternatives), embedding).
                        \<lparr>clause_id = Clause.clause_id clause, clause_text = text' clause,
                         clause_type = ctype, confidence_score = confidence,
                         embeddings = embedding, alternative_types = alternatives\<rparr>)
              (zip clauses
                 (zip (map (case_sum (\<lambda>e. (''Other'', 0.5, [(''Other'', 0.5)])) id)
                         (predict_outcomes (classifier self) (map text' clauses) (ext w)))
                      embs)))
     \<and> ((\<forall>ts uc bs s embs.
             fst (generate_embeddings_batch (embedding_generator self) ts uc bs s) = Inr embs
               \<longrightarrow> length embs = length ts) \<longrightarrow> length embs = length clauses)"
proof (cases "clauses = []")
  case True
  then show ?thesis by (simp add: analyze_clauses_try_def Let_def)
next
  case False
  obtain cls n w2 where c: "classify_loop self clauses ([], 0)
         (logger INFO ''Step 1: Classifying clauses...'' []
           (logger INFO ''Starting batch analysis of {} clauses'' [Nat (length clauses)] w)) = ((cls, n), w2)"
    by (metis surj_pair)
  have cls: "cls = map (case_sum (\<lambda>e. (''Other'', 0.5, [(''Other'', 0.5)])) id)
                         (predict_outcomes (classifier self) (map text' clauses) (ext w))"
    using classify_loop_result [of self clauses "[]" 0 "(logger INFO ''Step 1: Classifying clauses...'' []
           (logger INFO ''Starting batch analysis of {} clauses'' [Nat (length clauses)] w))"] c by simp
  let ?w3 = "logger INFO ''Step 2: Generating embeddings in batch...'' []
               (if n > 0
                  then logger WARNING
                         (''{} clauses failed classification and were marked as 'Other'' @ [CHR 0x27])
                         [Nat n] w2
                  else w2)"
  obtain embs m w4 where e: "embed_step self clauses batch_size ?w3 = ((embs, m), w4)"
    by (metis surj_pair)
  have len: "length embs = length clauses"
    if "\<forall>ts uc bs s embs.
             fst (generate_embeddings_batch (embedding_generator self) ts uc bs s) = Inr embs
               \<longrightarrow> length embs = length ts"
    using embed_step_length [of self clauses batch_size ?w3] that e by auto
  have "fst (analyze_clauses_try self clauses batch_size w) =
       Inr (map (\<lambda>(clause, (ctype, confidence, alternatives), embedding).
                        \<lparr>clause_id = Clause.clause_id clause, clause_text = text' clause,
                         clause_type = ctype, confidence_score = confidence,
                         embeddings = embedding, alternative_types = alternatives\<rparr>)
              (zip clauses (zip cls embs)))"
    using False by (simp add: analyze_clauses_try_def Let_def c e combine_loop_result)
  with len show ?thesis unfolding cls by blast
qed


lemma logged_logger: "logged (logger l m a w) = logged w @ [(l, m, a)]"
  by (simp add: logger_def)

lemma prefix_classify_loop: "prefix (logged w) (logged (snd (classify_loop self cs acc w)))"
proof (induction cs arbitrary: acc w)
  case Nil
  then show ?case by simp
next
  case (Cons c cs)
  obtain cls n where acc: "acc = (cls, n)" by (cases acc) auto
  show ?case
  proof (cases "fst (predict (classifier self) (text' c) (ext w))")
    case (Inl e)
    have "prefix (logged w @ [(ERROR, ''Error classifying clause {}: {}'',
                    [Str (Clause.clause_id c), Str (str e)])])
            (logged (snd (classify_loop self (c # cs) acc w)))"
      using Inl Cons.IH [where acc = "(cls @ [(''Other'', 0.5, [(''Other'', 0.5)])], n + 1)"
          and w = "logger ERROR ''Error classifying clause {}: {}''
             [Str (Clause.clause_id c), Str (str e)]
             (w\<lparr>ext := snd (predict (classifier self) (text' c) (ext w)),
                calls := calls w @ [Predict (text' c)]\<rparr>)"]
      by (simp add: acc call_predict_eq logged_logger)
    then show ?thesis by (rule append_prefixD)
  next
    case (Inr r)
    obtain ty conf alts where r: "r = (ty, conf, alts)" by (cases r) auto
    let ?w1 = "w\<lparr>ext := snd (predict (classifier self) (text' c) (ext w)),
                  calls := calls w @ [Predict (text' c)]\<rparr>"
    let ?w2 = "if conf < confidence_threshold self
               then logger WARNING ''Low confidence ({:.2f}) for clause {}''
                      [Real conf, Str (Clause.clause_id c)] ?w1
               else ?w1"
    have a: "prefix (logged w) (logged ?w2)"
      by (simp add: logged_logger)
    have b: "prefix (logged ?w2) (logged (snd (classify_loop self (c # cs) acc w)))"
      using Inr Cons.IH [where acc = "(cls @ [(ty, conf, alts)], n)" and w = ?w2]
      by (simp add: acc r call_predict_eq)
    from a b show ?thesis by (rule prefix_order.trans)
  qed
qed

lemma prefix_embed_loop: "prefix (logged w) (logged (snd (embed_loop self cs acc w)))"
proof (induction cs arbitrary: acc w)
  case Nil
  then show ?case by simp
next
  case (Cons c cs)
  obtain embs n where acc: "acc = (embs, n)" by (cases acc) auto
  let ?w1 = "w\<lparr>ext := snd (generate_embedding (embedding_generator self) (text' c) (ext w)),
                calls := calls w @ [GenerateEmbedding (text' c)]\<rparr>"
  show ?case
  proof (cases "fst (generate_embedding (embedding_generator self) (text' c) (ext w))")
    case (Inl e)
    let ?w2 = "logger ERROR ''Error generating embedding for {}: {}''
                 [Str (Clause.clause_id c), Str (str e)] ?w1"
    have a: "prefix (logged w) (logged ?w2)"
      by (simp add: logged_logger)
    have b: "prefix (logged ?w2) (logged (snd (embed_loop self (c # cs) acc w)))"
      using Inl Cons.IH [where acc = "(embs @ [None], n + 1)" and w = ?w2]
      by (simp add: acc call_generate_embedding_eq)
    from a b show ?thesis by (rule prefix_order.trans)
  next
    case (Inr v)
    have "prefix (logged ?w1) (logged (snd (embed_loop self (c # cs) acc w)))"
      using Inr Cons.IH [where acc = "(embs @ [Some v], n)" and w = ?w1]
      by (simp add: acc call_generate_embedding_eq)
    then show ?thesis by simp
  qed
qed

lemma prefix_embed_step: "prefix (logged w) (logged (snd (embed_step self clauses batch_size w)))"
proof (cases "fst (generate_embeddings_batch (embedding_generator self) (map text' clauses) True
                    batch_size (ext w))")
  case (Inl e)
  let ?w1 = "w\<lparr>ext := snd (generate_embeddings_batch (embedding_generator self)
                            (map text' clauses) True batch_size (ext w)),
                calls := calls w @ [GenerateEmbeddingsBatch (map text' clauses) True batch_size]\<rparr>"
  let ?w2 = "logger INFO ''Falling back to individual embedding generation...'' []
               (logger ERROR ''Error in batch embedding generation: {}'' [Str (str e)] ?w1)"
  have a: "prefix (logged w) (logged ?w2)"
    by (simp add: logged_logger)
  have b: "prefix (logged ?w2) (logged (snd (embed_loop self clauses ([], 0) ?w2)))"
    by (rule prefix_embed_loop)
  have c: "snd (embed_step self clauses batch_size w) = snd (embed_loop self clauses ([], 0) ?w2)"
    using Inl by (simp add: embed_step_def call_generate_embeddings_batch_eq Let_def)
  from a b show ?thesis unfolding c by (rule prefix_order.trans)
next
  case (Inr embs)
  then show ?thesis
    by (simp add: embed_step_def call_generate_embeddings_batch_eq Let_def)
qed


text \<open>
  The constructor of the records never raises, so step 3 never raises and the outer
  handler of \<^verbatim>\<open>analyze_clauses\<close> (lines 232 to 236) is never entered.
\<close>

lemma analyze_clauses_is_try:
  "analyze_clauses self clauses batch_size w = analyze_clauses_try self clauses batch_size w"
proof -
  obtain r w1 where t: "analyze_clauses_try self clauses batch_size w = (r, w1)"
    by (metis surj_pair)
  from analyze_clauses_try_result [of self clauses batch_size w] t
  obtain analyses where "r = Inr analyses" by auto
  with t show ?thesis by (simp add: analyze_clauses_def)
qed

lemma analyze_clauses_try_log:
  assumes "clauses \<noteq> []"
  shows "\<exists>analyses low m.
     fst (analyze_clauses_try self clauses batch_size w) = Inr analyses
     \<and> (INFO,
      ''Batch analysis complete: {} clauses analyzed, {} with low confidence, {} classification errors, {} embedding errors'',
      [Nat (length analyses), Nat low,
       Nat (length (filter isl (predict_outcomes (classifier self) (map text' clauses) (ext w)))),
       Nat m])
       \<in> set (drop (length (logged w))
                 (logged (snd (analyze_clauses_try self clauses batch_size w))))"
proof -
  let ?w1 = "logger INFO ''Step 1: Classifying clauses...'' []
           (logger INFO ''Starting batch analysis of {} clauses'' [Nat (length clauses)] w)"
  obtain cls n w2 where c: "classify_loop self clauses ([], 0) ?w1 = ((cls, n), w2)"
    by (metis surj_pair)
  have n: "n = length (filter isl (predict_outcomes (classifier self) (map text' clauses) (ext w)))"
    using classify_loop_result [of self clauses "[]" 0 ?w1] c by simp
  let ?w3 = "logger INFO ''Step 2: Generating embeddings in batch...'' []
               (if n > 0
                  then logger WARNING
                         (''{} clauses failed classification and were marked as 'Other'' @ [CHR 0x27])
                         [Nat n] w2
                  else w2)"
  obtain embs m w4 where e: "embed_step self clauses batch_size ?w3 = ((embs, m), w4)"
    by (metis surj_pair)
  let ?w6 = "logger INFO ''Step 3: Combining results...'' []
               (if m > 0
                then logger WARNING
                       ''{} clauses failed embedding generation. Compliance matching may be less accurate for these clauses.''
                       [Nat m] w4
                else w4)"
  have p1: "prefix (logged w) (logged ?w1)" by (simp add: logged_logger)
  have p2: "prefix (logged ?w1) (logged w2)"
    using prefix_classify_loop [of ?w1 self clauses "([], 0)"] c by simp
  have p3: "prefix (logged w2) (logged ?w3)" by (simp add: logged_logger)
  have p4: "prefix (logged ?w3) (logged w4)"
    using prefix_embed_step [of ?w3 self clauses batch_size] e by simp
  have p5: "prefix (logged w4) (logged ?w6)" by (simp add: logged_logger)
  from p1 p2 p3 p4 p5 have "prefix (logged w) (logged ?w6)"
    by (meson prefix_order.trans)
  then obtain l where l: "logged ?w6 = logged w @ l" by (auto elim: prefixE)
  let ?entry = "\<lambda>k low. (INFO,
      ''Batch analysis complete: {} clauses analyzed, {} with low confidence, {} classification errors, {} embedding errors'',
      [Nat k, Nat low, Nat n, Nat m])"
  have "\<exists>analyses low post.
          fst (analyze_clauses_try self clauses batch_size w) = Inr analyses
          \<and> logged (snd (analyze_clauses_try self clauses batch_size w)) =
            logged ?w6 @ [?entry (length analyses) low] @ post"
    using assms
    by (simp add: analyze_clauses_try_def Let_def c e combine_loop_result logged_logger)
  then obtain analyses low post where
    a: "fst (analyze_clauses_try self clauses batch_size w) = Inr analyses"
    and "logged (snd (analyze_clauses_try self clauses batch_size w)) =
       logged w @ l @ [?entry (length analyses) low] @ post"
    unfolding l by auto
  then have "?entry (length analyses) low \<in> set (drop (length (logged w))
                 (logged (snd (analyze_clauses_try self clauses batch_size w))))"
    by simp
  with a show ?thesis unfolding n by blast
qed

text \<open>
  Claim C1. When the batched embedding call, whenever it returns, returns as many entries
  as it was given texts, \<^verbatim>\<open>analyze_clauses\<close> returns (it raises nothing) a list as long as
  the list of clauses, whose record at each index has the id and the text of the clause at
  that index. This holds for every list of clauses, the empty one included.
\<close>

theorem C1_analyze_clauses_aligned:
  assumes "\<forall>ts uc bs s embs.
             fst (generate_embeddings_batch (embedding_generator self) ts uc bs s) = Inr embs
               \<longrightarrow> length embs = length ts"
  shows "\<exists>analyses.
           fst (analyze_clauses self clauses batch_size w) = Inr analyses
           \<and> length analyses = length clauses
           \<and> (\<forall>i < length clauses.
                 clause_id (analyses ! i) = Clause.clause_id (clauses ! i)
                 \<and> clause_text (analyses ! i) = text' (clauses ! i))"
proof -
  from analyze_clauses_try_result [of self clauses batch_size w] assms
  obtain embs where
    r: "fst (analyze_clauses self clauses batch_size w) =
       Inr (map (\<lambda>(clause, (ctype, confidence, alternatives), embedding).
                        \<lparr>clause_id = Clause.clause_id clause, clause_text = text' clause,
                         clause_type = ctype, confidence_score = confidence,
                         embeddings = embedding, alternative_types = alternatives\<rparr>)
              (zip clauses
                 (zip (map (case_sum (\<lambda>e. (''Other'', 0.5, [(''Other'', 0.5)])) id)
                         (predict_outcomes (classifier self) (map text' clauses) (ext w)))
                      embs)))"
    and len: "length embs = length clauses"
    unfolding analyze_clauses_is_try by blast
  show ?thesis
    unfolding r using len by (simp add: split_beta)
qed

theorem C1_analyze_clauses_aligned_witness:
  "\<exists>analyses.
     fst (analyze_clauses demo_analyzer demo_clauses 32 demo_world) = Inr analyses
     \<and> map clause_id analyses = [''c1'', ''c2'', ''c3'', ''c4'', ''c5'']
     \<and> map clause_text analyses = [''first'', ''second'', ''bad'', ''fourth'', ''fifth'']"
proof -
  have h: "\<forall>ts uc bs s embs.
             fst (generate_embeddings_batch (embedding_generator demo_analyzer) ts uc bs s) = Inr embs
               \<longrightarrow> length embs = length ts"
    by (auto simp add: demo_defs)
  from C1_analyze_clauses_aligned [OF h, of demo_clauses 32 demo_world]
  obtain analyses where
    r: "fst (analyze_clauses demo_analyzer demo_clauses 32 demo_world) = Inr analyses"
    and len: "length analyses = length demo_clauses"
    and al: "\<forall>i < length demo_clauses.
                 clause_id (analyses ! i) = Clause.clause_id (demo_clauses ! i)
                 \<and> clause_text (analyses ! i) = text' (demo_clauses ! i)"
    by blast
  have "map clause_id analyses = map Clause.clause_id demo_clauses"
    using len al by (auto intro: nth_equalityI)
  moreover have "map clause_text analyses = map text' demo_clauses"
    using len al by (auto intro: nth_equalityI)
  ultimately show ?thesis using r by (simp add: demo_clauses_def)
qed

text \<open>
  The condition on the batched call is needed: \<^verbatim>\<open>zip\<close> stops at the shortest sequence, so a
  batched call that returns one entry for five texts leaves one record.
\<close>

lemma analyze_clauses_truncates:
  "\<exists>analyses.
     fst (analyze_clauses demo_truncating_analyzer demo_clauses 32 demo_world) = Inr analyses
     \<and> map clause_id analyses = [''c1'']"
  by (simp add: analyze_clauses_def analyze_clauses_try_def embed_step_def
        call_predict_eq call_generate_embeddings_batch_eq ClauseAnalysis_init_def
        demo_truncating_analyzer_def demo_defs Let_def)

text \<open>
  Claim C4. Under the same condition on the batched embedding call, the record of a
  clause on which \<^verbatim>\<open>predict\<close> raised has the type "Other", the confidence 0.5 and the
  alternatives [("Other", 0.5)]; the record of a clause on which it returned has the
  classifier's three values. The error counter of the classification loop is the number
  of calls that raised, and, for a non-empty list, this is the number that the record
  "Batch analysis complete" of this run logs as classification errors.
\<close>

theorem C4_classification_failures_isolated:
  assumes "\<forall>ts uc bs s embs.
             fst (generate_embeddings_batch (embedding_generator self) ts uc bs s) = Inr embs
               \<longrightarrow> length embs = length ts"
  shows "\<exists>analyses.
           fst (analyze_clauses self clauses batch_size w) = Inr analyses
           \<and> length analyses = length clauses
           \<and> (\<forall>i < length clauses.
                 (clause_type (analyses ! i), confidence_score (analyses ! i),
                  alternative_types (analyses ! i)) =
                 (case predict_outcomes (classifier self) (map text' clauses) (ext w) ! i of
                    Inl e \<Rightarrow> (''Other'', 0.5, [(''Other'', 0.5)])
                  | Inr c \<Rightarrow> c))
           \<and> snd (fst (classify_loop self clauses ([], 0) w)) =
               length (filter isl (predict_outcomes (classifier self) (map text' clauses) (ext w)))
           \<and> (clauses \<noteq> [] \<longrightarrow>
                (\<exists>low m.
                   (INFO,
                    ''Batch analysis complete: {} clauses analyzed, {} with low confidence, {} classification errors, {} embedding errors'',
                    [Nat (length clauses), Nat low,
                     Nat (length (filter isl
                            (predict_outcomes (classifier self) (map text' clauses) (ext w)))),
                     Nat m])
                   \<in> set (drop (length (logged w))
                             (logged (snd (analyze_clauses self clauses batch_size w))))))"
proof -
  let ?outs = "predict_outcomes (classifier self) (map text' clauses) (ext w)"
  from analyze_clauses_try_result [of self clauses batch_size w] assms
  obtain embs where
    r: "fst (analyze_clauses self clauses batch_size w) =
       Inr (map (\<lambda>(clause, (ctype, confidence, alternatives), embedding).
                        \<lparr>clause_id = Clause.clause_id clause, clause_text = text' clause,
                         clause_type = ctype, confidence_score = confidence,
                         embeddings = embedding, alternative_types = alternatives\<rparr>)
              (zip clauses
                 (zip (map (case_sum (\<lambda>e. (''Other'', 0.5, [(''Other'', 0.5)])) id) ?outs)
                      embs)))"
    and len: "length embs = length clauses"
    unfolding analyze_clauses_is_try by blast
  have fields: "\<forall>i < length clauses.
     (clause_type (map (\<lambda>(clause, (ctype, confidence, alternatives), embedding).
                        \<lparr>clause_id = Clause.clause_id clause, clause_text = text' clause,
                         clause_type = ctype, confidence_score = confidence,
                         embeddings = embedding, alternative_types = alternatives\<rparr>)
              (zip clauses
                 (zip (map (case_sum (\<lambda>e. (''Other'', 0.5, [(''Other'', 0.5)])) id) ?outs)
                      embs)) ! i),
      confidence_score (map (\<lambda>(clause, (ctype, confidence, alternatives), embedding).
                        \<lparr>clause_id = Clause.clause_id clause, clause_text = text' clause,
                         clause_type = ctype, confidence_score = confidence,
                         embeddings = embedding, alternative_types = alternatives\<rparr>)
              (zip clauses
                 (zip (map (case_sum (\<lambda>e. (''Other'', 0.5, [(''Other'', 0.5)])) id) ?outs)
                      embs)) ! i),
      alternative_types (map (\<lambda>(clause, (ctype, confidence, alternatives), embedding).
                        \<lparr>clause_id = Clause.clause_id clause, clause_text = text' clause,
                         clause_type = ctype, confidence_score = confidence,
                         embeddings = embedding, alternative_types = alternatives\<rparr>)
              (zip clauses
                 (zip (map (case_sum (\<lambda>e. (''Other'', 0.5, [(''Other'', 0.5)])) id) ?outs)
                      embs)) ! i)) =
     (case ?outs ! i of Inl e \<Rightarrow> (''Other'', 0.5, [(''Other'', 0.5)]) | Inr c \<Rightarrow> c)"
    using len by (auto simp add: split_beta split: sum.splits)
  have counter: "snd (fst (classify_loop self clauses ([], 0) w)) = length (filter isl ?outs)"
    by (simp add: classify_loop_result)
  have logd: "\<exists>low m.
                   (INFO,
                    ''Batch analysis complete: {} clauses analyzed, {} with low confidence, {} classification errors, {} embedding errors'',
                    [Nat (length clauses), Nat low, Nat (length (filter isl ?outs)), Nat m])
                   \<in> set (drop (length (logged w))
                             (logged (snd (analyze_clauses self clauses batch_size w))))"
    if "clauses \<noteq> []"
  proof -
    from analyze_clauses_try_log [OF that, of self batch_size w]
    obtain analyses low m where
      a: "fst (analyze_clauses self clauses batch_size w) = Inr analyses"
      and b: "(INFO,
      ''Batch analysis complete: {} clauses analyzed, {} with low confidence, {} classification errors, {} embedding errors'',
      [Nat (length analyses), Nat low, Nat (length (filter isl ?outs)), Nat m])
       \<in> set (drop (length (logged w))
                 (logged (snd (analyze_clauses self clauses batch_size w))))"
      unfolding analyze_clauses_is_try by blast
    from a r len have "length analyses = length clauses" by auto
    with b show ?thesis by auto
  qed
  show ?thesis
    unfolding r using len fields counter logd by (simp add: split_beta)
qed


theorem C4_classification_failures_isolated_witness:
  "\<exists>analyses.
     fst (analyze_clauses demo_analyzer demo_clauses 32 demo_world) = Inr analyses
     \<and> length analyses = 5
     \<and> (clause_type (analyses ! 2), confidence_score (analyses ! 2),
         alternative_types (analyses ! 2)) = (''Other'', 0.5, [(''Other'', 0.5)])
     \<and> (clause_type (analyses ! 0), confidence_score (analyses ! 0),
         alternative_types (analyses ! 0)) =
          (''Confidentiality'', 0.92, [(''Confidentiality'', 0.92), (''NDA'', 0.05)])
     \<and> (clause_type (analyses ! 4), confidence_score (analyses ! 4),
         alternative_types (analyses ! 4)) =
          (''Confidentiality'', 0.92, [(''Confidentiality'', 0.92), (''NDA'', 0.05)])
     \<and> snd (fst (classify_loop demo_analyzer demo_clauses ([], 0) demo_world)) = 1"
proof -
  have h: "\<forall>ts uc bs s embs.
             fst (generate_embeddings_batch (embedding_generator demo_analyzer) ts uc bs s) = Inr embs
               \<longrightarrow> length embs = length ts"
    by (auto simp add: demo_defs)
  let ?ok = "Inr (''Confidentiality'', 0.92, [(''Confidentiality'', 0.92), (''NDA'', 0.05)])
               :: py_exception + classification"
  have outs: "predict_outcomes (classifier demo_analyzer) (map text' demo_clauses) (ext demo_world) =
                [?ok, ?ok, Inl (Exception ''model failure''), ?ok, ?ok]"
    by (simp add: demo_defs)
  have l5: "length demo_clauses = 5" by (simp add: demo_defs)
  from C4_classification_failures_isolated [OF h, of demo_clauses 32 demo_world]
  obtain analyses where
    r: "fst (analyze_clauses demo_analyzer demo_clauses 32 demo_world) = Inr analyses"
    and len: "length analyses = length demo_clauses"
    and f: "\<forall>i < length demo_clauses.
                 (clause_type (analyses ! i), confidence_score (analyses ! i),
                  alternative_types (analyses ! i)) =
                 (case predict_outcomes (classifier demo_analyzer) (map text' demo_clauses)
                         (ext demo_world) ! i of
                    Inl e \<Rightarrow> (''Other'', 0.5, [(''Other'', 0.5)])
                  | Inr c \<Rightarrow> c)"
    and n: "snd (fst (classify_loop demo_analyzer demo_clauses ([], 0) demo_world)) =
               length (filter isl (predict_outcomes (classifier demo_analyzer)
                 (map text' demo_clauses) (ext demo_world)))"
    by blast
  have i0: "(clause_type (analyses ! 0), confidence_score (analyses ! 0), alternative_types (analyses ! 0))
              = (''Confidentiality'', 0.92, [(''Confidentiality'', 0.92), (''NDA'', 0.05)])"
    using f [rule_format, of 0] unfolding l5 outs by simp
  have i2: "(clause_type (analyses ! 2), confidence_score (analyses ! 2), alternative_types (analyses ! 2))
              = (''Other'', 0.5, [(''Other'', 0.5)])"
    using f [rule_format, of 2] unfolding l5 outs by simp
  have i4: "(clause_type (analyses ! 4), confidence_score (analyses ! 4), alternative_types (analyses ! 4))
              = (''Confidentiality'', 0.92, [(''Confidentiality'', 0.92), (''NDA'', 0.05)])"
    using f [rule_format, of 4] unfolding l5 outs by simp
  have n1: "snd (fst (classify_loop demo_analyzer demo_clauses ([], 0) demo_world)) = 1"
    unfolding n outs by simp
  have l: "length analyses = 5" using len l5 by simp
  from r l i0 i2 i4 n1 show ?thesis by blast
qed


end
